theory Spec2Isabelle
  imports Main
begin

section \<open>Data model of server.js\<close>

text \<open>
  JavaScript strings are modelled as \<^typ>\<open>string\<close> (byte lists, the UTF-8 encoding of the
  source's literals). A value that may be \<^verbatim>\<open>undefined\<close> is an \<^typ>\<open>'a option\<close>.
\<close>

datatype stage =
    INITIAL
  | ASKED_FIRST_NAME
  | ASKED_LAST_NAME
  | ASKED_EMAIL
  | ASKED_PHONE
  | ASKED_REQUIREMENT
  | COMPLETED
  | HANDOFF

text \<open>The object \<^verbatim>\<open>conversation.data\<close>: every property is absent until it is assigned.\<close>

record lead_data =
  firstName :: "string option"
  lastName :: "string option"
  email :: "string option"
  phone :: "string option"
  requirement :: "string option"
  whatsappNumber :: "string option"

definition empty_data :: lead_data where
  "empty_data = \<lparr>firstName = None, lastName = None, email = None, phone = None,
     requirement = None, whatsappNumber = None\<rparr>"

record conversation =
  stage :: stage
  data :: lead_data

datatype role = Customer | Bot | Sales

record message_record =
  sender :: role
  message :: string
  timestamp :: string

text \<open>The object handed to \<^verbatim>\<open>sfConnection.sobject('Lead').create\<close>.\<close>

record lead_record =
  FirstName :: "string option"
  LastName :: "string option"
  Company :: string
  Email :: "string option"
  Phone :: "string option"
  Description :: "string option"
  LeadSource :: string
  Status :: string
  WhatsApp_Number__c :: "string option"
  WhatsApp_Message__c :: "string option"
  WhatsApp_Conversation_ID__c :: "string option"

text \<open>
  The three in-memory maps and the Salesforce connection (\<open>False\<close> is \<^verbatim>\<open>null\<close>).
\<close>

record world =
  conversations :: "string \<rightharpoonup> conversation"
  messageHistory :: "string \<rightharpoonup> message_record list"
  handoffMode :: "string \<rightharpoonup> bool"
  sfConnection :: bool

definition initial_world :: world where
  "initial_world = \<lparr>conversations = Map.empty, messageHistory = Map.empty,
     handoffMode = Map.empty, sfConnection = False\<rparr>"

text \<open>The calls that leave the process, in the order they are made.\<close>

datatype effect =
    SalesforceLogin
  | LeadCreate lead_record
  | WhatsAppSend string string

text \<open>What \<^verbatim>\<open>sobject('Lead').create\<close> does: it throws, or returns \<^verbatim>\<open>{success, id}\<close>.\<close>

datatype crm_response = CrmThrows | CrmResult bool string

text \<open>
  What the outside world answers while one request is handled: whether \<^verbatim>\<open>conn.login\<close>
  succeeds, the answer of the lead creation, whether the n-th call of
  \<^verbatim>\<open>axios.post\<close> succeeds, the message of the error it throws otherwise, and the value of the
  n-th \<^verbatim>\<open>new Date().toISOString()\<close>.
\<close>

record env =
  login_ok :: bool
  lead_create :: "lead_record \<Rightarrow> crm_response"
  send_ok :: "nat \<Rightarrow> bool"
  send_error :: string
  now :: "nat \<Rightarrow> string"

section \<open>String helpers\<close>

definition is_digit :: "char \<Rightarrow> bool" where
  "is_digit c = (c \<in> set ''0123456789'')"

text \<open>\<^verbatim>\<open>phoneNumber.replace(/\D/g, '')\<close>\<close>

definition cleanPhone :: "string \<Rightarrow> string" where
  "cleanPhone phoneNumber = filter is_digit phoneNumber"

text \<open>
  \<^verbatim>\<open>s.trim()\<close>: the white space and the line terminators of ECMAScript are removed at
  both ends. \<open>white_space\<close> lists them in UTF-8: U+0009 to U+000D, U+0020, U+00A0,
  U+1680, U+2000 to U+200A, U+2028, U+2029, U+202F, U+205F, U+3000 and U+FEFF.
  \<open>leading ps s\<close> is the length of the first pattern of \<open>ps\<close> that \<open>s\<close> starts with
  (0 when there is none), and \<open>strip ps s\<close> removes such patterns as long as there is one.
\<close>

definition white_space :: "string list" where
  "white_space =
     [[CHR 0x09], [CHR 0x0A], [CHR 0x0B], [CHR 0x0C], [CHR 0x0D], [CHR 0x20],
      [CHR 0xC2, CHR 0xA0],
      [CHR 0xE1, CHR 0x9A, CHR 0x80],
      [CHR 0xE2, CHR 0x80, CHR 0x80], [CHR 0xE2, CHR 0x80, CHR 0x81],
      [CHR 0xE2, CHR 0x80, CHR 0x82], [CHR 0xE2, CHR 0x80, CHR 0x83],
      [CHR 0xE2, CHR 0x80, CHR 0x84], [CHR 0xE2, CHR 0x80, CHR 0x85],
      [CHR 0xE2, CHR 0x80, CHR 0x86], [CHR 0xE2, CHR 0x80, CHR 0x87],
      [CHR 0xE2, CHR 0x80, CHR 0x88], [CHR 0xE2, CHR 0x80, CHR 0x89],
      [CHR 0xE2, CHR 0x80, CHR 0x8A],
      [CHR 0xE2, CHR 0x80, CHR 0xA8], [CHR 0xE2, CHR 0x80, CHR 0xA9],
      [CHR 0xE2, CHR 0x80, CHR 0xAF],
      [CHR 0xE2, CHR 0x81, CHR 0x9F],
      [CHR 0xE3, CHR 0x80, CHR 0x80],
      [CHR 0xEF, CHR 0xBB, CHR 0xBF]]"

definition leading :: "string list \<Rightarrow> string \<Rightarrow> nat" where
  "leading ps s =
     (case find (\<lambda>p. take (length p) s = p) ps of None \<Rightarrow> 0 | Some p \<Rightarrow> length p)"

function strip :: "string list \<Rightarrow> string \<Rightarrow> string" where
  "strip ps s = (if leading ps s = 0 then s else strip ps (drop (leading ps s) s))"
  by pat_completeness auto
termination
proof (relation "measure (\<lambda>(ps, s). length s)")
  show "wf (measure (\<lambda>(ps, s). length s))" by simp
next
  fix ps :: "string list" and s :: string
  assume some: "leading ps s \<noteq> 0"
  have "leading ps [] = 0"
    by (auto simp: leading_def find_Some_iff split: option.splits)
  with some have "s \<noteq> []" by auto
  with some show "((ps, drop (leading ps s) s), (ps, s)) \<in> measure (\<lambda>(ps, s). length s)"
    by simp
qed

declare strip.simps [simp del]

definition trim :: "string \<Rightarrow> string" where
  "trim s = rev (strip (map rev white_space) (rev (strip white_space s)))"

text \<open>
  \<^verbatim>\<open>s.toLowerCase()\<close> on the letters A to Z. The source only compares the result with the
  ASCII words \<open>restart\<close> and \<open>start\<close>, and no character outside ASCII has one of their
  letters as its lower case.
\<close>

definition lower_char :: "char \<Rightarrow> char" where
  "lower_char c =
     (case map_of (zip ''ABCDEFGHIJKLMNOPQRSTUVWXYZ'' ''abcdefghijklmnopqrstuvwxyz'') c of
        Some l \<Rightarrow> l
      | None \<Rightarrow> c)"

definition toLowerCase :: "string \<Rightarrow> string" where
  "toLowerCase s = map lower_char s"

text \<open>\<^verbatim>\<open>s.includes(c)\<close> for a one-character pattern.\<close>

definition str_includes :: "string \<Rightarrow> char \<Rightarrow> bool" where
  "str_includes s c = (c \<in> set s)"

text \<open>A value inside a template literal: \<^verbatim>\<open>undefined\<close> prints as the word.\<close>

definition template :: "string option \<Rightarrow> string" where
  "template v = (case v of None \<Rightarrow> ''undefined'' | Some s \<Rightarrow> s)"

section \<open>The replies of the bot\<close>

definition reply_greeting :: string where
  "reply_greeting =
     [CHR 0xF0, CHR 0x9F, CHR 0x91, CHR 0x8B] @
     '' Hello! Welcome to our business!\<newline>\<newline>I'd be happy to help you. Let me collect some information.\<newline>\<newline>What is your *first name*?''"

definition reply_last_name :: "string \<Rightarrow> string" where
  "reply_last_name userMessage =
     ''Nice to meet you, '' @ userMessage @ ''! '' @
     [CHR 0xF0, CHR 0x9F, CHR 0x98, CHR 0x8A] @
     ''\<newline>\<newline>What is your *last name*?''"

definition reply_email :: string where
  "reply_email = ''Great! What is your *email address*?''"

definition reply_invalid_email :: string where
  "reply_invalid_email =
     [CHR 0xE2, CHR 0x9A, CHR 0xA0, CHR 0xEF, CHR 0xB8, CHR 0x8F] @
     '' That doesn't look like a valid email address. Please provide a valid email (e.g., name@example.com)''"

definition reply_phone :: string where
  "reply_phone =
     ''Perfect! What is your *phone number*?\<newline>\<newline>(You can share the same number you're messaging from)''"

definition reply_requirement :: string where
  "reply_requirement =
     ''Almost done! '' @ [CHR 0xF0, CHR 0x9F, CHR 0x93, CHR 0x9D] @
     ''\<newline>\<newline>Please describe your *requirement* or tell us what you're looking for.''"

definition reply_thanks :: "string option \<Rightarrow> string option \<Rightarrow> string" where
  "reply_thanks first leadId =
     [CHR 0xE2, CHR 0x9C, CHR 0x85] @ '' Thank you, '' @ template first @
     ''!\<newline>\<newline>We've received your inquiry. Our sales team will contact you shortly on WhatsApp.\<newline>\<newline>'' @
     [CHR 0xF0, CHR 0x9F, CHR 0x93, CHR 0x8B] @ '' Your reference number: '' @ template leadId"

definition reply_crm_error :: string where
  "reply_crm_error =
     [CHR 0xE2, CHR 0x9D, CHR 0x8C] @
     '' Sorry, there was an error saving your information. Please try again or contact us directly.''"

definition reply_already_submitted :: string where
  "reply_already_submitted =
     ''Your inquiry has already been submitted. Our team will reach out soon!\<newline>\<newline>If you have a new inquiry, type 'restart'.''"

definition reply_went_wrong :: string where
  "reply_went_wrong = ''Sorry, something went wrong. Please try again.''"

section \<open>History and handoff registry\<close>

text \<open>
  \<^verbatim>\<open>storeMessage(phoneNumber, sender, message)\<close>; the fourth argument is the value of
  \<^verbatim>\<open>new Date().toISOString()\<close>.
\<close>

definition storeMessage :: "string \<Rightarrow> role \<Rightarrow> string \<Rightarrow> string \<Rightarrow> world \<Rightarrow> world" where
  "storeMessage phoneNumber who msg ts w =
     (let key = cleanPhone phoneNumber;
          old = (case messageHistory w key of None \<Rightarrow> [] | Some h \<Rightarrow> h)
      in w\<lparr>messageHistory := (messageHistory w)(key \<mapsto>
            old @ [\<lparr>sender = who, message = msg, timestamp = ts\<rparr>])\<rparr>)"

definition isHandoffMode :: "string \<Rightarrow> world \<Rightarrow> bool" where
  "isHandoffMode phoneNumber w = (handoffMode w (cleanPhone phoneNumber) = Some True)"

definition setHandoffMode :: "string \<Rightarrow> bool \<Rightarrow> world \<Rightarrow> world" where
  "setHandoffMode phoneNumber mode w =
     w\<lparr>handoffMode := (handoffMode w)(cleanPhone phoneNumber \<mapsto> mode)\<rparr>"

section \<open>Salesforce\<close>

definition connectToSalesforce :: "env \<Rightarrow> world \<Rightarrow> bool \<times> world \<times> effect list" where
  "connectToSalesforce e w =
     (if login_ok e then (True, w\<lparr>sfConnection := True\<rparr>, [SalesforceLogin])
      else (False, w, [SalesforceLogin]))"

definition leadRecord :: "lead_data \<Rightarrow> lead_record" where
  "leadRecord d =
     \<lparr>FirstName = firstName d,
      LastName = lastName d,
      Company = template (firstName d) @ '' '' @ template (lastName d),
      Email = email d,
      Phone = phone d,
      Description = requirement d,
      LeadSource = ''WhatsApp'',
      Status = ''Open - Not Contacted'',
      WhatsApp_Number__c = whatsappNumber d,
      WhatsApp_Message__c = requirement d,
      WhatsApp_Conversation_ID__c = whatsappNumber d\<rparr>"

text \<open>
  \<^verbatim>\<open>createLeadInSalesforce(data)\<close> returns the id of the lead or \<^verbatim>\<open>null\<close> (\<open>None\<close>).
  Without a connection after the login attempt, \<^verbatim>\<open>sfConnection.sobject\<close> throws on
  \<^verbatim>\<open>null\<close> and the \<^verbatim>\<open>catch\<close> returns \<^verbatim>\<open>null\<close>.
\<close>

definition createLeadInSalesforce ::
  "env \<Rightarrow> lead_data \<Rightarrow> world \<Rightarrow> string option \<times> world \<times> effect list" where
  "createLeadInSalesforce e d w =
     (let (w1, es) = (if \<not> sfConnection w
                      then (let (ok, w', es') = connectToSalesforce e w in (w', es'))
                      else (w, []))
      in if \<not> sfConnection w1 then (None, w1, es)
         else (case lead_create e (leadRecord d) of
                 CrmThrows \<Rightarrow> (None, w1, es @ [LeadCreate (leadRecord d)])
               | CrmResult ok lid \<Rightarrow>
                   (if ok then (Some lid, w1, es @ [LeadCreate (leadRecord d)])
                    else (None, w1, es @ [LeadCreate (leadRecord d)]))))"

text \<open>The truth value of \<^verbatim>\<open>leadId\<close> in \<^verbatim>\<open>if (leadId)\<close>: \<^verbatim>\<open>null\<close> and the empty string are false.\<close>

definition truthy :: "string option \<Rightarrow> bool" where
  "truthy v = (case v of None \<Rightarrow> False | Some s \<Rightarrow> s \<noteq> [])"

section \<open>The conversation handler\<close>

text \<open>\<^verbatim>\<open>conversations.get(userPhone) || { stage: STAGES.INITIAL, data: {} }\<close>\<close>

definition get_conversation :: "stage \<Rightarrow> string \<Rightarrow> world \<Rightarrow> conversation" where
  "get_conversation dflt k w =
     (case conversations w k of None \<Rightarrow> \<lparr>stage = dflt, data = empty_data\<rparr> | Some c \<Rightarrow> c)"

text \<open>
  The end of \<^verbatim>\<open>handleConversation\<close> after the \<^verbatim>\<open>switch\<close>: the conversation is stored,
  the reply is sent, and the reply is recorded once the send has returned. When the send
  throws, the \<^verbatim>\<open>catch\<close> block sends the apology instead and nothing is recorded; whether
  that second send throws as well changes only what is logged.
\<close>

definition commit_and_reply ::
  "env \<Rightarrow> string \<Rightarrow> conversation \<Rightarrow> string \<Rightarrow> world \<Rightarrow> effect list \<Rightarrow> world \<times> effect list" where
  "commit_and_reply e userPhone c reply w es =
     (let w1 = w\<lparr>conversations := (conversations w)(userPhone \<mapsto> c)\<rparr>
      in if send_ok e 0
         then (storeMessage userPhone Bot reply (now e 1) w1, es @ [WhatsAppSend userPhone reply])
         else (w1, es @ [WhatsAppSend userPhone reply, WhatsAppSend userPhone reply_went_wrong]))"

function handleConversation :: "env \<Rightarrow> string \<Rightarrow> string \<Rightarrow> world \<Rightarrow> world \<times> effect list" where
  "handleConversation e userPhone userMessage w =
     (let c = get_conversation INITIAL userPhone w in
      case stage c of
        INITIAL \<Rightarrow>
          commit_and_reply e userPhone (c\<lparr>stage := ASKED_FIRST_NAME\<rparr>) reply_greeting w []
      | ASKED_FIRST_NAME \<Rightarrow>
          commit_and_reply e userPhone
            (c\<lparr>data := (data c)\<lparr>firstName := Some userMessage\<rparr>, stage := ASKED_LAST_NAME\<rparr>)
            (reply_last_name userMessage) w []
      | ASKED_LAST_NAME \<Rightarrow>
          commit_and_reply e userPhone
            (c\<lparr>data := (data c)\<lparr>lastName := Some userMessage\<rparr>, stage := ASKED_EMAIL\<rparr>)
            reply_email w []
      | ASKED_EMAIL \<Rightarrow>
          (if \<not> str_includes userMessage CHR ''@'' \<or> \<not> str_includes userMessage CHR ''.''
           then commit_and_reply e userPhone c reply_invalid_email w []
           else commit_and_reply e userPhone
                  (c\<lparr>data := (data c)\<lparr>email := Some userMessage\<rparr>, stage := ASKED_PHONE\<rparr>)
                  reply_phone w [])
      | ASKED_PHONE \<Rightarrow>
          commit_and_reply e userPhone
            (c\<lparr>data := (data c)\<lparr>phone := Some userMessage\<rparr>, stage := ASKED_REQUIREMENT\<rparr>)
            reply_requirement w []
      | ASKED_REQUIREMENT \<Rightarrow>
          (let d = (data c)\<lparr>requirement := Some userMessage, whatsappNumber := Some userPhone\<rparr>;
               (leadId, w1, es) = createLeadInSalesforce e d w
           in if truthy leadId
              then commit_and_reply e userPhone (c\<lparr>data := d, stage := COMPLETED\<rparr>)
                     (reply_thanks (firstName d) leadId) w1 es
              else commit_and_reply e userPhone (c\<lparr>data := d\<rparr>) reply_crm_error w1 es)
      | COMPLETED \<Rightarrow>
          (if toLowerCase userMessage = ''restart'' \<or> toLowerCase userMessage = ''start''
           then handleConversation e userPhone ''Hi''
                  (w\<lparr>conversations := (conversations w)(userPhone := None)\<rparr>)
           else commit_and_reply e userPhone c reply_already_submitted w [])
      | HANDOFF \<Rightarrow> (w, []))"
  by pat_completeness auto
termination
  by (relation "measure (\<lambda>(e, userPhone, userMessage, w).
        if stage (get_conversation INITIAL userPhone w) = COMPLETED then 1 else 0)")
     (auto simp: get_conversation_def)

declare handleConversation.simps [simp del]

section \<open>The endpoints\<close>

text \<open>
  The body of a \<^verbatim>\<open>POST /webhook\<close> request. \<open>messages\<close> is
  \<^verbatim>\<open>body.entry?.[0]?.changes?.[0]?.value?.messages\<close>, \<open>msg_from\<close> is
  \<^verbatim>\<open>message.from\<close> and \<open>text_body\<close> is \<^verbatim>\<open>message.text?.body\<close>; \<open>None\<close> is
  \<^verbatim>\<open>undefined\<close>.
\<close>

record wa_message =
  msg_from :: "string option"
  text_body :: "string option"

record webhook_body =
  body_object :: "string option"
  messages :: "wa_message list option"

text \<open>\<^verbatim>\<open>message.text?.body?.trim() || ''\<close>\<close>

definition messageText :: "wa_message \<Rightarrow> string" where
  "messageText m = (case text_body m of None \<Rightarrow> [] | Some b \<Rightarrow> trim b)"

text \<open>
  \<^verbatim>\<open>app.post('/webhook')\<close>. An empty \<open>messages\<close> array makes \<^verbatim>\<open>message.from\<close> throw
  and a missing \<^verbatim>\<open>from\<close> makes \<^verbatim>\<open>phoneNumber.replace\<close> throw inside
  \<^verbatim>\<open>storeMessage\<close>, both before anything is written; the \<^verbatim>\<open>catch\<close> only logs.
\<close>

definition webhook :: "env \<Rightarrow> webhook_body \<Rightarrow> world \<Rightarrow> world \<times> effect list" where
  "webhook e body w =
     (if body_object body = Some ''whatsapp_business_account'' then
        (case messages body of
           None \<Rightarrow> (w, [])
         | Some [] \<Rightarrow> (w, [])
         | Some (m # _) \<Rightarrow>
             (case msg_from m of
                None \<Rightarrow> (w, [])
              | Some sender_id \<Rightarrow>
                  (let w1 = storeMessage sender_id Customer (messageText m) (now e 0) w
                   in if isHandoffMode sender_id w1 then (w1, [])
                      else handleConversation e sender_id (messageText m) w1)))
      else (w, []))"

record send_request =
  req_phoneNumber :: "string option"
  req_message :: "string option"

record response =
  status :: nat
  success :: bool
  detail :: string

text \<open>\<^verbatim>\<open>app.post('/api/send-message')\<close>\<close>

definition send_message :: "env \<Rightarrow> send_request \<Rightarrow> world \<Rightarrow> response \<times> world \<times> effect list" where
  "send_message e req w =
     (case (req_phoneNumber req, req_message req) of
        (Some phoneNumber, Some msg) \<Rightarrow>
          (if phoneNumber = [] \<or> msg = []
           then (\<lparr>status = 400, success = False,
                   detail = ''Phone number and message are required''\<rparr>, w, [])
           else if send_ok e 0
           then (let w1 = storeMessage (cleanPhone phoneNumber) Sales msg (now e 0) w;
                     w2 = setHandoffMode (cleanPhone phoneNumber) True w1;
                     c = get_conversation INITIAL (cleanPhone phoneNumber) w2;
                     w3 = w2\<lparr>conversations :=
                            (conversations w2)(cleanPhone phoneNumber \<mapsto> c\<lparr>stage := HANDOFF\<rparr>)\<rparr>
                 in (\<lparr>status = 200, success = True, detail = ''Message sent successfully''\<rparr>,
                     w3, [WhatsAppSend (cleanPhone phoneNumber) msg]))
           else (\<lparr>status = 500, success = False,
                   detail = (if send_error e = [] then ''Failed to send message''
                             else send_error e)\<rparr>,
                 w, [WhatsAppSend (cleanPhone phoneNumber) msg]))
      | _ \<Rightarrow> (\<lparr>status = 400, success = False,
                detail = ''Phone number and message are required''\<rparr>, w, []))"

text \<open>
  \<^verbatim>\<open>app.get('/api/conversation-history/:phoneNumber')\<close>: the number as it is
  answered, and the messages (their count is the length of the list).
\<close>

definition conversation_history :: "string \<Rightarrow> world \<Rightarrow> string \<times> message_record list" where
  "conversation_history phoneNumber w =
     (cleanPhone phoneNumber,
      (case messageHistory w (cleanPhone phoneNumber) of None \<Rightarrow> [] | Some h \<Rightarrow> h))"

text \<open>
  \<^verbatim>\<open>app.post('/api/resume-bot')\<close>. Without a \<^verbatim>\<open>phoneNumber\<close> in the body
  \<^verbatim>\<open>phoneNumber.replace\<close> throws and the answer is the status 500 with the message of
  the \<^verbatim>\<open>TypeError\<close> (the text below is the one of V8).
\<close>

definition resume_bot :: "string option \<Rightarrow> world \<Rightarrow> response \<times> world" where
  "resume_bot req w =
     (case req of
        None \<Rightarrow> (\<lparr>status = 500, success = False,
                   detail = ''Cannot read properties of undefined (reading 'replace')''\<rparr>, w)
      | Some phoneNumber \<Rightarrow>
          (let w1 = setHandoffMode (cleanPhone phoneNumber) False w;
               c = get_conversation COMPLETED (cleanPhone phoneNumber) w1
           in (\<lparr>status = 200, success = True, detail = ''Bot resumed''\<rparr>,
               w1\<lparr>conversations :=
                 (conversations w1)(cleanPhone phoneNumber \<mapsto> c\<lparr>stage := COMPLETED\<rparr>)\<rparr>)))"

text \<open>The requests that write to the stores, and the server state after a list of them.\<close>

datatype request =
    Webhook webhook_body
  | SendMessage send_request
  | ResumeBot "string option"

fun serve :: "env \<times> request \<Rightarrow> world \<Rightarrow> world" where
  "serve (e, Webhook body) w = fst (webhook e body w)"
| "serve (e, SendMessage req) w = fst (snd (send_message e req w))"
| "serve (e, ResumeBot req) w = snd (resume_bot req w)"

fun run :: "(env \<times> request) list \<Rightarrow> world \<Rightarrow> world" where
  "run [] w = w"
| "run (r # rs) w = run rs (serve r w)"

text \<open>Is the request a resume for the sender \<open>k\<close>?\<close>

fun resumes :: "string \<Rightarrow> request \<Rightarrow> bool" where
  "resumes k (ResumeBot (Some phoneNumber)) = (cleanPhone phoneNumber = k)"
| "resumes k _ = False"

text \<open>The position of a stage in the order of the dialogue.\<close>

fun stage_rank :: "stage \<Rightarrow> nat" where
  "stage_rank INITIAL = 0"
| "stage_rank ASKED_FIRST_NAME = 1"
| "stage_rank ASKED_LAST_NAME = 2"
| "stage_rank ASKED_EMAIL = 3"
| "stage_rank ASKED_PHONE = 4"
| "stage_rank ASKED_REQUIREMENT = 5"
| "stage_rank COMPLETED = 6"
| "stage_rank HANDOFF = 7"

text \<open>
  The messages a handler sent, as pairs of recipient and text, and the first of them: the
  reply to the request (\<open>None\<close> when nothing was sent).
\<close>

fun sent :: "effect list \<Rightarrow> (string \<times> string) list" where
  "sent [] = []"
| "sent (WhatsAppSend to body # es) = (to, body) # sent es"
| "sent (_ # es) = sent es"

definition first_reply :: "effect list \<Rightarrow> (string \<times> string) option" where
  "first_reply es = (case sent es of [] \<Rightarrow> None | x # _ \<Rightarrow> Some x)"

section \<open>Example inputs\<close>

text \<open>An outside world where every call succeeds, and one where sending fails.\<close>

definition env_ok :: env where
  "env_ok = \<lparr>login_ok = True, lead_create = (\<lambda>r. CrmResult True ''00Q5g00000ABCDE''),
     send_ok = (\<lambda>n. True), send_error = [], now = (\<lambda>n. ''2024-01-01T00:00:00.000Z'')\<rparr>"

definition env_send_fails :: env where
  "env_send_fails = env_ok\<lparr>send_ok := (\<lambda>n. False), send_error := ''Network Error''\<rparr>"

definition env_crm_fails :: env where
  "env_crm_fails = env_ok\<lparr>lead_create := (\<lambda>r. CrmThrows)\<rparr>"

text \<open>The server with a single stored conversation.\<close>

definition world_at :: "string \<Rightarrow> conversation \<Rightarrow> world" where
  "world_at k c = initial_world\<lparr>conversations := [k \<mapsto> c]\<rparr>"

text \<open>A webhook delivery with one text message.\<close>

definition inbound :: "string \<Rightarrow> string \<Rightarrow> webhook_body" where
  "inbound sender_id body =
     \<lparr>body_object = Some ''whatsapp_business_account'',
      messages = Some [\<lparr>msg_from = Some sender_id, text_body = Some body\<rparr>]\<rparr>"

text \<open>The server after the handler has run on the messages of one sender in order.\<close>

fun feed :: "string \<Rightarrow> (env \<times> string) list \<Rightarrow> world \<Rightarrow> world" where
  "feed userPhone [] w = w"
| "feed userPhone ((e, userMessage) # rest) w =
     feed userPhone rest (fst (handleConversation e userPhone userMessage w))"


text \<open>The data of the scenario before and after the requirement, and its lead.\<close>

definition website_data :: lead_data where
  "website_data = \<lparr>firstName = Some ''John'', lastName = Some ''Doe'', email = Some ''john@x.com'',
     phone = Some ''555123'', requirement = Some ''need a website'',
     whatsappNumber = Some ''15551234567''\<rparr>"

definition website_lead :: "string \<Rightarrow> lead_record" where
  "website_lead u =
     \<lparr>FirstName = Some ''John'', LastName = Some ''Doe'', Company = ''John Doe'',
      Email = Some ''john@x.com'', Phone = Some ''555123'',
      Description = Some ''need a website'', LeadSource = ''WhatsApp'',
      Status = ''Open - Not Contacted'', WhatsApp_Number__c = Some u,
      WhatsApp_Message__c = Some ''need a website'', WhatsApp_Conversation_ID__c = Some u\<rparr>"


definition scenario_data :: "string \<Rightarrow> lead_data" where
  "scenario_data senderId =
     \<lparr>firstName = Some ''John'', lastName = Some ''Doe'', email = Some ''john@x.com'',
      phone = Some ''555123'', requirement = Some ''need a website'',
      whatsappNumber = Some senderId\<rparr>"

definition john_data :: lead_data where
  "john_data = \<lparr>firstName = Some ''John'', lastName = Some ''Doe'', email = Some ''john@x.com'',
     phone = Some ''555123'', requirement = None, whatsappNumber = None\<rparr>"


text \<open>A delivery of an image: the message has a sender and no text.\<close>

definition inbound_without_text :: "string \<Rightarrow> webhook_body" where
  "inbound_without_text sender_id =
     \<lparr>body_object = Some ''whatsapp_business_account'',
      messages = Some [\<lparr>msg_from = Some sender_id, text_body = None\<rparr>]\<rparr>"

text \<open>The server after \<^verbatim>\<open>/api/resume-bot\<close> for the number \<open>15551234567\<close>.\<close>

definition world_resumed :: world where
  "world_resumed = snd (resume_bot (Some ''15551234567'') initial_world)"

section \<open>Properties\<close>

text \<open>
  C5: stripping the non-digit characters is idempotent, and the two spellings
  \<open>+1 (555) 123-4567\<close> and \<open>15551234567\<close> of a number have the same normal form.
\<close>

theorem cleanPhone_idempotent:
  "cleanPhone (cleanPhone x) = cleanPhone x \<and>
   cleanPhone ''+1 (555) 123-4567'' = cleanPhone ''15551234567''"
proof
  show "cleanPhone (cleanPhone x) = cleanPhone x"
    by (simp add: cleanPhone_def)
  show "cleanPhone ''+1 (555) 123-4567'' = cleanPhone ''15551234567''"
    by (simp add: cleanPhone_def is_digit_def)
qed

lemma trim_Nil: "trim [] = []"
  by (simp add: trim_def strip.simps leading_def white_space_def)

lemma cleanPhone_twice [simp]: "cleanPhone (cleanPhone p) = cleanPhone p"
  by (simp add: cleanPhone_def)

lemma storeMessage_frame [simp]:
  "conversations (storeMessage p r m t w) = conversations w"
  "handoffMode (storeMessage p r m t w) = handoffMode w"
  "sfConnection (storeMessage p r m t w) = sfConnection w"
  by (simp_all add: storeMessage_def Let_def)

lemma isHandoffMode_storeMessage [simp]:
  "isHandoffMode p (storeMessage q r m t w) = isHandoffMode p w"
  by (simp add: isHandoffMode_def)

lemma createLead_frame:
  assumes "createLeadInSalesforce e d w = (lid, w1, es)"
  shows "conversations w1 = conversations w" "messageHistory w1 = messageHistory w"
    "handoffMode w1 = handoffMode w"
  using assms
  by (auto simp: createLeadInSalesforce_def connectToSalesforce_def Let_def
      split: if_splits crm_response.splits)

lemma createLead_send_ok [simp]:
  "createLeadInSalesforce (e\<lparr>send_ok := f\<rparr>) d w = createLeadInSalesforce e d w"
  by (simp add: createLeadInSalesforce_def connectToSalesforce_def)

lemma hc_INITIAL:
  "conversations w u = None \<Longrightarrow>
   handleConversation e u m w =
     commit_and_reply e u \<lparr>stage = ASKED_FIRST_NAME, data = empty_data\<rparr> reply_greeting w []"
  by (subst handleConversation.simps) (simp add: get_conversation_def)

lemma hc_stored:
  "conversations w u = Some c \<Longrightarrow>
   handleConversation e u m w =
     (case stage c of
        INITIAL \<Rightarrow>
          commit_and_reply e u (c\<lparr>stage := ASKED_FIRST_NAME\<rparr>) reply_greeting w []
      | ASKED_FIRST_NAME \<Rightarrow>
          commit_and_reply e u
            (c\<lparr>data := (data c)\<lparr>firstName := Some m\<rparr>, stage := ASKED_LAST_NAME\<rparr>)
            (reply_last_name m) w []
      | ASKED_LAST_NAME \<Rightarrow>
          commit_and_reply e u
            (c\<lparr>data := (data c)\<lparr>lastName := Some m\<rparr>, stage := ASKED_EMAIL\<rparr>)
            reply_email w []
      | ASKED_EMAIL \<Rightarrow>
          (if \<not> str_includes m CHR ''@'' \<or> \<not> str_includes m CHR ''.''
           then commit_and_reply e u c reply_invalid_email w []
           else commit_and_reply e u
                  (c\<lparr>data := (data c)\<lparr>email := Some m\<rparr>, stage := ASKED_PHONE\<rparr>)
                  reply_phone w [])
      | ASKED_PHONE \<Rightarrow>
          commit_and_reply e u
            (c\<lparr>data := (data c)\<lparr>phone := Some m\<rparr>, stage := ASKED_REQUIREMENT\<rparr>)
            reply_requirement w []
      | ASKED_REQUIREMENT \<Rightarrow>
          (let d = (data c)\<lparr>requirement := Some m, whatsappNumber := Some u\<rparr>;
               (leadId, w1, es) = createLeadInSalesforce e d w
           in if truthy leadId
              then commit_and_reply e u (c\<lparr>data := d, stage := COMPLETED\<rparr>)
                     (reply_thanks (firstName d) leadId) w1 es
              else commit_and_reply e u (c\<lparr>data := d\<rparr>) reply_crm_error w1 es)
      | COMPLETED \<Rightarrow>
          (if toLowerCase m = ''restart'' \<or> toLowerCase m = ''start''
           then commit_and_reply e u \<lparr>stage = ASKED_FIRST_NAME, data = empty_data\<rparr>
                  reply_greeting (w\<lparr>conversations := (conversations w)(u := None)\<rparr>) []
           else commit_and_reply e u c reply_already_submitted w [])
      | HANDOFF \<Rightarrow> (w, []))"
  by (subst handleConversation.simps)
     (simp add: get_conversation_def hc_INITIAL split: stage.splits)


lemma commit_and_reply_conv [simp]:
  "conversations (fst (commit_and_reply e u c r w es)) = (conversations w)(u \<mapsto> c)"
  by (simp add: commit_and_reply_def Let_def)

lemma commit_and_reply_frame [simp]:
  "handoffMode (fst (commit_and_reply e u c r w es)) = handoffMode w"
  "sfConnection (fst (commit_and_reply e u c r w es)) = sfConnection w"
  by (simp_all add: commit_and_reply_def Let_def)


lemma sent_append [simp]: "sent (xs @ ys) = sent xs @ sent ys"
  by (induction xs rule: sent.induct) simp_all

lemma createLead_sent [simp]: "sent (snd (snd (createLeadInSalesforce e d w))) = []"
  by (simp add: createLeadInSalesforce_def connectToSalesforce_def Let_def
      split: crm_response.splits)

lemma commit_and_reply_reply [simp]:
  "first_reply (snd (commit_and_reply e u c r w es)) =
     (case sent es of [] \<Rightarrow> Some (u, r) | x # _ \<Rightarrow> Some x)"
  by (simp add: commit_and_reply_def Let_def first_reply_def split: list.splits)

lemma commit_and_reply_snd:
  "snd (commit_and_reply e u c r w es) =
     es @ (if send_ok e 0 then [WhatsAppSend u r]
           else [WhatsAppSend u r, WhatsAppSend u reply_went_wrong])"
  by (simp add: commit_and_reply_def Let_def)

text \<open>
  C1, as the code has it: in stage \<open>ASKED_EMAIL\<close> a text that contains both \<open>@\<close> and
  \<open>.\<close> is stored as the email, the stage becomes \<open>ASKED_PHONE\<close> and the reply asks
  for the phone number; every other text (one that lacks \<open>@\<close> or lacks \<open>.\<close>) leaves
  the conversation as it was and is answered by the validation error.
\<close>

theorem asked_email_transition:
  assumes "conversations w u = Some c" and "stage c = ASKED_EMAIL"
  shows "if str_includes m CHR ''@'' \<and> str_includes m CHR ''.''
         then conversations (fst (handleConversation e u m w)) u =
                Some (c\<lparr>data := (data c)\<lparr>email := Some m\<rparr>, stage := ASKED_PHONE\<rparr>) \<and>
              first_reply (snd (handleConversation e u m w)) = Some (u, reply_phone)
         else conversations (fst (handleConversation e u m w)) u = Some c \<and>
              first_reply (snd (handleConversation e u m w)) = Some (u, reply_invalid_email)"
  using assms by (simp add: hc_stored)

theorem asked_email_transition_witness:
  "conversations (fst (handleConversation env_ok ''15551234567'' ''john@x.com''
       (world_at ''15551234567'' \<lparr>stage = ASKED_EMAIL, data = empty_data\<rparr>))) ''15551234567'' =
     Some \<lparr>stage = ASKED_PHONE, data = empty_data\<lparr>email := Some ''john@x.com''\<rparr>\<rparr> \<and>
   first_reply (snd (handleConversation env_ok ''15551234567'' ''john@x.com''
       (world_at ''15551234567'' \<lparr>stage = ASKED_EMAIL, data = empty_data\<rparr>))) =
     Some (''15551234567'', reply_phone)"
  using asked_email_transition [of "world_at ''15551234567'' \<lparr>stage = ASKED_EMAIL, data = empty_data\<rparr>"
      "''15551234567''" "\<lparr>stage = ASKED_EMAIL, data = empty_data\<rparr>" "''john@x.com''" env_ok]
  by (simp add: world_at_def str_includes_def)

text \<open>
  C1 as stated fails: \<open>a@b\<close> does not lack both characters, and it is rejected.
\<close>

theorem email_without_dot_rejected:
  "str_includes ''a@b'' CHR ''@'' \<and>
   conversations (fst (handleConversation env_ok ''15551234567'' ''a@b''
       (world_at ''15551234567'' \<lparr>stage = ASKED_EMAIL, data = empty_data\<rparr>))) ''15551234567'' =
     Some \<lparr>stage = ASKED_EMAIL, data = empty_data\<rparr> \<and>
   first_reply (snd (handleConversation env_ok ''15551234567'' ''a@b''
       (world_at ''15551234567'' \<lparr>stage = ASKED_EMAIL, data = empty_data\<rparr>))) =
     Some (''15551234567'', reply_invalid_email)"
  by (simp add: hc_stored world_at_def str_includes_def)


text \<open>
  C8: in stage \<open>COMPLETED\<close> a text that is \<open>restart\<close> or \<open>start\<close> in any
  capitalisation puts the conversation at \<open>ASKED_FIRST_NAME\<close> with empty data and sends
  what the handler sends for a sender without a conversation (the greeting); every other
  text leaves the conversation as it is and is answered by the already-submitted notice.
  For a stored conversation at any stage, the handler lowers the stage only in that one case.
\<close>

theorem completed_restart:
  assumes "conversations w u = Some c"
  shows "(stage c = COMPLETED \<longrightarrow>
           (if toLowerCase m = ''restart'' \<or> toLowerCase m = ''start''
            then conversations (fst (handleConversation e u m w)) u =
                   Some \<lparr>stage = ASKED_FIRST_NAME, data = empty_data\<rparr> \<and>
                 first_reply (snd (handleConversation e u m w)) = Some (u, reply_greeting) \<and>
                 (\<forall>w0 m0. conversations w0 u = None \<longrightarrow>
                    snd (handleConversation e u m w) = snd (handleConversation e u m0 w0))
            else conversations (fst (handleConversation e u m w)) u = Some c \<and>
                 first_reply (snd (handleConversation e u m w)) =
                   Some (u, reply_already_submitted))) \<and>
         (\<forall>c'. conversations (fst (handleConversation e u m w)) u = Some c' \<and>
              stage_rank (stage c') < stage_rank (stage c) \<longrightarrow>
              stage c = COMPLETED \<and> stage c' = ASKED_FIRST_NAME \<and>
              (toLowerCase m = ''restart'' \<or> toLowerCase m = ''start''))"
proof
  show "stage c = COMPLETED \<longrightarrow>
           (if toLowerCase m = ''restart'' \<or> toLowerCase m = ''start''
            then conversations (fst (handleConversation e u m w)) u =
                   Some \<lparr>stage = ASKED_FIRST_NAME, data = empty_data\<rparr> \<and>
                 first_reply (snd (handleConversation e u m w)) = Some (u, reply_greeting) \<and>
                 (\<forall>w0 m0. conversations w0 u = None \<longrightarrow>
                    snd (handleConversation e u m w) = snd (handleConversation e u m0 w0))
            else conversations (fst (handleConversation e u m w)) u = Some c \<and>
                 first_reply (snd (handleConversation e u m w)) =
                   Some (u, reply_already_submitted))"
    using assms by (simp add: hc_stored hc_INITIAL commit_and_reply_snd first_reply_def)
next
  show "\<forall>c'. conversations (fst (handleConversation e u m w)) u = Some c' \<and>
              stage_rank (stage c') < stage_rank (stage c) \<longrightarrow>
              stage c = COMPLETED \<and> stage c' = ASKED_FIRST_NAME \<and>
              (toLowerCase m = ''restart'' \<or> toLowerCase m = ''start'')"
    using assms
    by (cases "stage c")
       (auto simp: hc_stored Let_def split: prod.splits if_splits)
qed

theorem completed_restart_witness:
  "conversations (fst (handleConversation env_ok ''15551234567'' ''ReStart''
       (world_at ''15551234567'' \<lparr>stage = COMPLETED, data = john_data\<rparr>))) ''15551234567'' =
     Some \<lparr>stage = ASKED_FIRST_NAME, data = empty_data\<rparr> \<and>
   first_reply (snd (handleConversation env_ok ''15551234567'' ''ReStart''
       (world_at ''15551234567'' \<lparr>stage = COMPLETED, data = john_data\<rparr>))) =
     Some (''15551234567'', reply_greeting)"
  using completed_restart [of "world_at ''15551234567'' \<lparr>stage = COMPLETED, data = john_data\<rparr>"
      "''15551234567''" "\<lparr>stage = COMPLETED, data = john_data\<rparr>" "''ReStart''" env_ok]
  by (simp add: world_at_def toLowerCase_def lower_char_def)

lemma createLead_frame_simps [simp]:
  "conversations (fst (snd (createLeadInSalesforce e d w))) = conversations w"
  "messageHistory (fst (snd (createLeadInSalesforce e d w))) = messageHistory w"
  "handoffMode (fst (snd (createLeadInSalesforce e d w))) = handoffMode w"
  by (simp_all add: createLeadInSalesforce_def connectToSalesforce_def Let_def
      split: crm_response.splits)

lemma createLead_attempt: "snd (snd (createLeadInSalesforce e d w)) \<noteq> []"
  by (simp add: createLeadInSalesforce_def connectToSalesforce_def Let_def
      split: crm_response.splits)

lemma createLead_reaches_crm:
  "sfConnection w \<or> login_ok e \<Longrightarrow>
   LeadCreate (leadRecord d) \<in> set (snd (snd (createLeadInSalesforce e d w)))"
  by (auto simp: createLeadInSalesforce_def connectToSalesforce_def Let_def
      split: crm_response.splits)

lemma createLead_success:
  "sfConnection w \<or> login_ok e \<Longrightarrow> lead_create e (leadRecord d) = CrmResult True lid \<Longrightarrow>
   fst (createLeadInSalesforce e d w) = Some lid"
  by (auto simp: createLeadInSalesforce_def connectToSalesforce_def Let_def)

lemma hc_requirement:
  assumes "conversations w u = Some c" and "stage c = ASKED_REQUIREMENT"
    and "d = (data c)\<lparr>requirement := Some m, whatsappNumber := Some u\<rparr>"
  shows "handleConversation e u m w =
     (if truthy (fst (createLeadInSalesforce e d w))
      then commit_and_reply e u (c\<lparr>data := d, stage := COMPLETED\<rparr>)
             (reply_thanks (firstName d) (fst (createLeadInSalesforce e d w)))
             (fst (snd (createLeadInSalesforce e d w))) (snd (snd (createLeadInSalesforce e d w)))
      else commit_and_reply e u (c\<lparr>data := d\<rparr>) reply_crm_error
             (fst (snd (createLeadInSalesforce e d w))) (snd (snd (createLeadInSalesforce e d w))))"
  using assms by (simp add: hc_stored Let_def split_beta)

text \<open>
  C7: when the lead creation fails in stage \<open>ASKED_REQUIREMENT\<close>, the stage stays
  \<open>ASKED_REQUIREMENT\<close> and the reply is the failure message. Handling the same text
  again runs the lead creation again on the same data: its calls (a login or a lead
  creation, never none) open the effects of the retry, the lead reaches Salesforce whenever
  a connection exists or can be made, and a retry that succeeds completes the conversation.
\<close>

theorem crm_failure_retry:
  assumes "conversations w u = Some c" and "stage c = ASKED_REQUIREMENT"
    and "d = (data c)\<lparr>requirement := Some m, whatsappNumber := Some u\<rparr>"
    and "\<not> truthy (fst (createLeadInSalesforce e d w))"
    and "w1 = fst (handleConversation e u m w)"
  shows "conversations w1 u = Some (c\<lparr>data := d\<rparr>) \<and>
         stage (c\<lparr>data := d\<rparr>) = ASKED_REQUIREMENT \<and>
         first_reply (snd (handleConversation e u m w)) = Some (u, reply_crm_error) \<and>
         (\<forall>e2. (\<exists>rest. snd (handleConversation e2 u m w1) =
                     snd (snd (createLeadInSalesforce e2 d w1)) @ rest) \<and>
               snd (snd (createLeadInSalesforce e2 d w1)) \<noteq> [] \<and>
               (sfConnection w1 \<or> login_ok e2 \<longrightarrow>
                  LeadCreate (leadRecord d) \<in> set (snd (handleConversation e2 u m w1))) \<and>
               (truthy (fst (createLeadInSalesforce e2 d w1)) \<longrightarrow>
                  map_option stage (conversations (fst (handleConversation e2 u m w1)) u) =
                    Some COMPLETED))"
proof -
  have first: "handleConversation e u m w =
      commit_and_reply e u (c\<lparr>data := d\<rparr>) reply_crm_error
        (fst (snd (createLeadInSalesforce e d w))) (snd (snd (createLeadInSalesforce e d w)))"
    using assms(1-4) by (simp add: hc_requirement)
  have stored: "conversations w1 u = Some (c\<lparr>data := d\<rparr>)"
    using assms(5) by (simp add: first)
  have same: "(data (c\<lparr>data := d\<rparr>))\<lparr>requirement := Some m, whatsappNumber := Some u\<rparr> = d"
    using assms(3) by simp
  have retry: "handleConversation e2 u m w1 =
     (if truthy (fst (createLeadInSalesforce e2 d w1))
      then commit_and_reply e2 u (c\<lparr>data := d, stage := COMPLETED\<rparr>)
             (reply_thanks (firstName d) (fst (createLeadInSalesforce e2 d w1)))
             (fst (snd (createLeadInSalesforce e2 d w1))) (snd (snd (createLeadInSalesforce e2 d w1)))
      else commit_and_reply e2 u (c\<lparr>data := d\<rparr>) reply_crm_error
             (fst (snd (createLeadInSalesforce e2 d w1))) (snd (snd (createLeadInSalesforce e2 d w1))))"
    for e2
    using hc_requirement [OF stored _ same [symmetric], of e2] assms(2) by simp
  have reply: "first_reply (snd (handleConversation e u m w)) = Some (u, reply_crm_error)"
    by (simp add: first)
  have again: "\<exists>rest. snd (handleConversation e2 u m w1) =
      snd (snd (createLeadInSalesforce e2 d w1)) @ rest" for e2
    by (simp add: retry commit_and_reply_snd)
  have crm: "sfConnection w1 \<or> login_ok e2 \<longrightarrow>
      LeadCreate (leadRecord d) \<in> set (snd (handleConversation e2 u m w1))" for e2
    using createLead_reaches_crm [of w1 e2 d] by (auto simp: retry commit_and_reply_snd)
  have completes: "truthy (fst (createLeadInSalesforce e2 d w1)) \<longrightarrow>
      map_option stage (conversations (fst (handleConversation e2 u m w1)) u) = Some COMPLETED"
    for e2
    by (simp add: retry)
  show ?thesis
    using stored assms(2) reply again crm completes createLead_attempt by simp
qed


theorem crm_failure_retry_witness:
  "conversations (fst (handleConversation env_crm_fails ''15551234567'' ''need a website''
       (world_at ''15551234567'' \<lparr>stage = ASKED_REQUIREMENT, data = john_data\<rparr>))) ''15551234567'' =
     Some \<lparr>stage = ASKED_REQUIREMENT, data = website_data\<rparr> \<and>
   first_reply (snd (handleConversation env_crm_fails ''15551234567'' ''need a website''
       (world_at ''15551234567'' \<lparr>stage = ASKED_REQUIREMENT, data = john_data\<rparr>))) =
     Some (''15551234567'', reply_crm_error) \<and>
   map_option stage (conversations (fst (handleConversation env_ok ''15551234567'' ''need a website''
       (fst (handleConversation env_crm_fails ''15551234567'' ''need a website''
          (world_at ''15551234567'' \<lparr>stage = ASKED_REQUIREMENT, data = john_data\<rparr>)))))
       ''15551234567'') = Some COMPLETED"
proof -
  let ?w = "world_at ''15551234567'' \<lparr>stage = ASKED_REQUIREMENT, data = john_data\<rparr>"
  let ?w1 = "fst (handleConversation env_crm_fails ''15551234567'' ''need a website'' ?w)"
  have d: "website_data =
      (data \<lparr>stage = ASKED_REQUIREMENT, data = john_data\<rparr>)
        \<lparr>requirement := Some ''need a website'', whatsappNumber := Some ''15551234567''\<rparr>"
    by (simp add: website_data_def john_data_def)
  have fails: "\<not> truthy (fst (createLeadInSalesforce env_crm_fails website_data ?w))"
    by (simp add: createLeadInSalesforce_def connectToSalesforce_def env_crm_fails_def
        env_ok_def world_at_def initial_world_def truthy_def)
  have ok: "truthy (fst (createLeadInSalesforce env_ok website_data ?w1))"
    using createLead_success [of ?w1 env_ok website_data "''00Q5g00000ABCDE''"]
    by (simp add: env_ok_def truthy_def)
  have "conversations ?w ''15551234567'' = Some \<lparr>stage = ASKED_REQUIREMENT, data = john_data\<rparr>"
    by (simp add: world_at_def)
  from crm_failure_retry [OF this _ d fails refl] ok show ?thesis
    by simp
qed


lemma hc_sfConnection_early:
  assumes "conversations w u = Some c"
    and "stage c \<noteq> ASKED_REQUIREMENT"
  shows "sfConnection (fst (handleConversation e u m w)) = sfConnection w"
  using assms by (cases "stage c") (simp_all add: hc_stored)

text \<open>
  C6, as the code has it: the first message of a new sender is only answered by the
  greeting. Once that message \<open>m0\<close> has been handled for a sender identity (a sender in
  digits), the inputs \<open>John\<close>, \<open>Doe\<close>, \<open>john@x.com\<close>, \<open>555123\<close>,
  \<open>need a website\<close> make the last step run the lead creation on the data with first
  name \<open>John\<close>, last name \<open>Doe\<close>, the email, the phone, the requirement and the sender
  identity as WhatsApp number: its calls open the effects of the step and are never none,
  the lead built from the data has the company \<open>John Doe\<close>, and that lead reaches
  Salesforce whenever a connection exists or can be made. When the lead creation succeeds
  (it returns an id that the handler accepts), the stage becomes \<open>COMPLETED\<close> and the
  reply is the thanks that ends with the returned id.
\<close>

theorem happy_path_after_greeting:
  assumes "conversations w0 u = None"
    and "cleanPhone u = u"
    and "w5 = feed u [(e0, m0), (e1, ''John''), (e2, ''Doe''), (e3, ''john@x.com''),
                      (e4, ''555123'')] w0"
  shows "(\<exists>rest. snd (handleConversation e5 u ''need a website'' w5) =
            snd (snd (createLeadInSalesforce e5 (scenario_data (cleanPhone u)) w5)) @ rest) \<and>
         snd (snd (createLeadInSalesforce e5 (scenario_data (cleanPhone u)) w5)) \<noteq> [] \<and>
         leadRecord (scenario_data (cleanPhone u)) = website_lead (cleanPhone u) \<and>
         (sfConnection w0 \<or> login_ok e5 \<longrightarrow>
            LeadCreate (website_lead (cleanPhone u)) \<in>
              set (snd (handleConversation e5 u ''need a website'' w5))) \<and>
         (truthy (fst (createLeadInSalesforce e5 (scenario_data (cleanPhone u)) w5)) \<longrightarrow>
            conversations (fst (handleConversation e5 u ''need a website'' w5)) u =
              Some \<lparr>stage = COMPLETED, data = scenario_data (cleanPhone u)\<rparr> \<and>
            (\<exists>leadId before.
               fst (createLeadInSalesforce e5 (scenario_data (cleanPhone u)) w5) = Some leadId \<and>
               leadId \<noteq> [] \<and>
               first_reply (snd (handleConversation e5 u ''need a website'' w5)) =
                 Some (u, reply_thanks (Some ''John'') (Some leadId)) \<and>
               reply_thanks (Some ''John'') (Some leadId) = before @ leadId))"
proof -
  let ?d4 = "empty_data\<lparr>firstName := Some ''John'', lastName := Some ''Doe'',
      email := Some ''john@x.com'', phone := Some ''555123''\<rparr>"
  let ?X = "createLeadInSalesforce e5 (scenario_data u) w5"
  define w1 where "w1 = fst (handleConversation e0 u m0 w0)"
  define w2 where "w2 = fst (handleConversation e1 u ''John'' w1)"
  define w3 where "w3 = fst (handleConversation e2 u ''Doe'' w2)"
  define w4 where "w4 = fst (handleConversation e3 u ''john@x.com'' w3)"
  have w5: "w5 = fst (handleConversation e4 u ''555123'' w4)"
    by (simp add: assms(3) w1_def w2_def w3_def w4_def)
  have c1: "conversations w1 u = Some \<lparr>stage = ASKED_FIRST_NAME, data = empty_data\<rparr>"
    using assms(1) by (simp add: w1_def hc_INITIAL)
  have c2: "conversations w2 u =
      Some \<lparr>stage = ASKED_LAST_NAME, data = empty_data\<lparr>firstName := Some ''John''\<rparr>\<rparr>"
    by (simp add: w2_def hc_stored [OF c1])
  have c3: "conversations w3 u =
      Some \<lparr>stage = ASKED_EMAIL,
            data = empty_data\<lparr>firstName := Some ''John'', lastName := Some ''Doe''\<rparr>\<rparr>"
    by (simp add: w3_def hc_stored [OF c2])
  have c4: "conversations w4 u =
      Some \<lparr>stage = ASKED_PHONE,
            data = empty_data\<lparr>firstName := Some ''John'', lastName := Some ''Doe'',
              email := Some ''john@x.com''\<rparr>\<rparr>"
    by (simp add: w4_def hc_stored [OF c3] str_includes_def)
  have c5: "conversations w5 u = Some \<lparr>stage = ASKED_REQUIREMENT, data = ?d4\<rparr>"
    by (simp add: w5 hc_stored [OF c4])
  have "sfConnection w1 = sfConnection w0"
    using assms(1) by (simp add: w1_def hc_INITIAL)
  moreover have "sfConnection w2 = sfConnection w1"
    unfolding w2_def by (rule hc_sfConnection_early [OF c1]) simp
  moreover have "sfConnection w3 = sfConnection w2"
    unfolding w3_def by (rule hc_sfConnection_early [OF c2]) simp
  moreover have "sfConnection w4 = sfConnection w3"
    unfolding w4_def by (rule hc_sfConnection_early [OF c3]) simp
  moreover have "sfConnection w5 = sfConnection w4"
    unfolding w5 by (rule hc_sfConnection_early [OF c4]) simp
  ultimately have conn: "sfConnection w5 = sfConnection w0"
    by simp
  have d: "scenario_data u = (data \<lparr>stage = ASKED_REQUIREMENT, data = ?d4\<rparr>)
      \<lparr>requirement := Some ''need a website'', whatsappNumber := Some u\<rparr>"
    by (simp add: scenario_data_def empty_data_def)
  have lead: "leadRecord (scenario_data u) = website_lead u"
    by (simp add: scenario_data_def leadRecord_def website_lead_def template_def)
  have first: "firstName (scenario_data u) = Some ''John''"
    by (simp add: scenario_data_def)
  have step: "handleConversation e5 u ''need a website'' w5 =
     (if truthy (fst ?X)
      then commit_and_reply e5 u \<lparr>stage = COMPLETED, data = scenario_data u\<rparr>
             (reply_thanks (Some ''John'') (fst ?X)) (fst (snd ?X)) (snd (snd ?X))
      else commit_and_reply e5 u \<lparr>stage = ASKED_REQUIREMENT, data = scenario_data u\<rparr>
             reply_crm_error (fst (snd ?X)) (snd (snd ?X)))"
    by (simp add: hc_requirement [OF c5 _ d] first)
  have called: "\<exists>rest. snd (handleConversation e5 u ''need a website'' w5) = snd (snd ?X) @ rest"
    by (simp add: step commit_and_reply_snd)
  have reaches: "sfConnection w0 \<or> login_ok e5 \<longrightarrow>
      LeadCreate (website_lead u) \<in> set (snd (handleConversation e5 u ''need a website'' w5))"
    using createLead_reaches_crm [of w5 e5 "scenario_data u"]
    by (auto simp: step commit_and_reply_snd lead conn)
  have success: "conversations (fst (handleConversation e5 u ''need a website'' w5)) u =
        Some \<lparr>stage = COMPLETED, data = scenario_data u\<rparr> \<and>
      (\<exists>leadId before. fst ?X = Some leadId \<and> leadId \<noteq> [] \<and>
         first_reply (snd (handleConversation e5 u ''need a website'' w5)) =
           Some (u, reply_thanks (Some ''John'') (Some leadId)) \<and>
         reply_thanks (Some ''John'') (Some leadId) = before @ leadId)"
    if ok: "truthy (fst ?X)"
  proof -
    from ok obtain leadId where lid: "fst ?X = Some leadId" "leadId \<noteq> []"
      by (auto simp: truthy_def split: option.splits)
    have "reply_thanks (Some ''John'') (Some leadId) =
        ([CHR 0xE2, CHR 0x9C, CHR 0x85] @ '' Thank you, '' @ ''John'' @
         ''!\<newline>\<newline>We've received your inquiry. Our sales team will contact you shortly on WhatsApp.\<newline>\<newline>'' @
         [CHR 0xF0, CHR 0x9F, CHR 0x93, CHR 0x8B] @ '' Your reference number: '') @ leadId"
      by (simp add: reply_thanks_def template_def)
    then have "\<exists>before. reply_thanks (Some ''John'') (Some leadId) = before @ leadId"
      by blast
    moreover have "first_reply (snd (handleConversation e5 u ''need a website'' w5)) =
        Some (u, reply_thanks (Some ''John'') (Some leadId))"
      using ok lid(1) by (simp add: step)
    moreover have "conversations (fst (handleConversation e5 u ''need a website'' w5)) u =
        Some \<lparr>stage = COMPLETED, data = scenario_data u\<rparr>"
      using ok by (simp add: step)
    ultimately show ?thesis
      using lid by blast
  qed
  show ?thesis
    unfolding assms(2)
    using called createLead_attempt [of e5 "scenario_data u" w5] lead reaches success
    by blast
qed

theorem happy_path_after_greeting_witness:
  "LeadCreate (website_lead ''15551234567'') \<in>
     set (snd (handleConversation env_ok ''15551234567'' ''need a website''
      (feed ''15551234567'' [(env_ok, ''Hi''), (env_ok, ''John''), (env_ok, ''Doe''),
         (env_ok, ''john@x.com''), (env_ok, ''555123'')] initial_world))) \<and>
   conversations (fst (handleConversation env_ok ''15551234567'' ''need a website''
      (feed ''15551234567'' [(env_ok, ''Hi''), (env_ok, ''John''), (env_ok, ''Doe''),
         (env_ok, ''john@x.com''), (env_ok, ''555123'')] initial_world))) ''15551234567'' =
     Some \<lparr>stage = COMPLETED, data = scenario_data ''15551234567''\<rparr> \<and>
   first_reply (snd (handleConversation env_ok ''15551234567'' ''need a website''
      (feed ''15551234567'' [(env_ok, ''Hi''), (env_ok, ''John''), (env_ok, ''Doe''),
         (env_ok, ''john@x.com''), (env_ok, ''555123'')] initial_world))) =
     Some (''15551234567'', reply_thanks (Some ''John'') (Some ''00Q5g00000ABCDE''))"
proof -
  let ?u = "''15551234567''"
  let ?w5 = "feed ?u [(env_ok, ''Hi''), (env_ok, ''John''), (env_ok, ''Doe''),
         (env_ok, ''john@x.com''), (env_ok, ''555123'')] initial_world"
  have new: "conversations initial_world ?u = None"
    by (simp add: initial_world_def)
  have key: "cleanPhone ?u = ?u"
    by (simp add: cleanPhone_def is_digit_def)
  have login: "sfConnection initial_world \<or> login_ok env_ok"
    by (simp add: env_ok_def)
  have created: "fst (createLeadInSalesforce env_ok (scenario_data ?u) ?w5) =
      Some ''00Q5g00000ABCDE''"
    by (rule createLead_success) (simp_all add: env_ok_def)
  then have ok: "truthy (fst (createLeadInSalesforce env_ok (scenario_data ?u) ?w5))"
    by (simp add: truthy_def)
  from happy_path_after_greeting [OF new key refl, where ?e0.0 = env_ok and ?m0.0 = "''Hi''"
      and ?e1.0 = env_ok and ?e2.0 = env_ok and ?e3.0 = env_ok and ?e4.0 = env_ok
      and ?e5.0 = env_ok] login ok created
  show ?thesis
    unfolding key by auto
qed

text \<open>
  C6 as stated fails: fed to a new sender, \<open>John\<close> is consumed by the greeting,
  \<open>Doe\<close> becomes the first name, \<open>john@x.com\<close> the last name, and the last two inputs
  are rejected as emails; the fifth step creates no lead.
\<close>

theorem happy_path_first_input_ignored:
  "conversations (feed ''15551234567'' [(env_ok, ''John''), (env_ok, ''Doe''),
       (env_ok, ''john@x.com''), (env_ok, ''555123''), (env_ok, ''need a website'')]
       initial_world) ''15551234567'' =
     Some \<lparr>stage = ASKED_EMAIL,
           data = empty_data\<lparr>firstName := Some ''Doe'', lastName := Some ''john@x.com''\<rparr>\<rparr> \<and>
   snd (handleConversation env_ok ''15551234567'' ''need a website''
     (feed ''15551234567'' [(env_ok, ''John''), (env_ok, ''Doe''), (env_ok, ''john@x.com''),
        (env_ok, ''555123'')] initial_world)) =
     [WhatsAppSend ''15551234567'' reply_invalid_email]"
proof -
  let ?u = "''15551234567''"
  define w1 where "w1 = fst (handleConversation env_ok ?u ''John'' initial_world)"
  define w2 where "w2 = fst (handleConversation env_ok ?u ''Doe'' w1)"
  define w3 where "w3 = fst (handleConversation env_ok ?u ''john@x.com'' w2)"
  define w4 where "w4 = fst (handleConversation env_ok ?u ''555123'' w3)"
  have c1: "conversations w1 ?u = Some \<lparr>stage = ASKED_FIRST_NAME, data = empty_data\<rparr>"
    by (simp add: w1_def hc_INITIAL initial_world_def)
  have c2: "conversations w2 ?u =
      Some \<lparr>stage = ASKED_LAST_NAME, data = empty_data\<lparr>firstName := Some ''Doe''\<rparr>\<rparr>"
    by (simp add: w2_def hc_stored [OF c1])
  have c3: "conversations w3 ?u =
      Some \<lparr>stage = ASKED_EMAIL,
            data = empty_data\<lparr>firstName := Some ''Doe'', lastName := Some ''john@x.com''\<rparr>\<rparr>"
    by (simp add: w3_def hc_stored [OF c2])
  have c4: "conversations w4 ?u =
      Some \<lparr>stage = ASKED_EMAIL,
            data = empty_data\<lparr>firstName := Some ''Doe'', lastName := Some ''john@x.com''\<rparr>\<rparr>"
    by (simp add: w4_def hc_stored [OF c3] str_includes_def)
  have "conversations (fst (handleConversation env_ok ?u ''need a website'' w4)) ?u =
      Some \<lparr>stage = ASKED_EMAIL,
            data = empty_data\<lparr>firstName := Some ''Doe'', lastName := Some ''john@x.com''\<rparr>\<rparr>"
    by (simp add: hc_stored [OF c4] str_includes_def)
  moreover have "snd (handleConversation env_ok ?u ''need a website'' w4) =
      [WhatsAppSend ?u reply_invalid_email]"
    by (simp add: hc_stored [OF c4] str_includes_def commit_and_reply_snd env_ok_def)
  ultimately show ?thesis
    by (simp add: w1_def w2_def w3_def w4_def)
qed


text \<open>
  C10: the agent override sends first. When the send fails nothing is written: the server
  state (history, handoff flag, conversation) is the one before and the answer is the
  failure result with status 500 and \<open>success = False\<close>, after exactly one send
  attempt. Any change of the state, of the handoff registry in particular, implies that
  the send succeeded.
\<close>

theorem send_message_failure:
  "(req_phoneNumber req = Some p \<and> req_message req = Some msg \<and> p \<noteq> [] \<and> msg \<noteq> [] \<and>
    \<not> send_ok e 0 \<longrightarrow>
      fst (snd (send_message e req w)) = w \<and>
      status (fst (send_message e req w)) = 500 \<and>
      \<not> success (fst (send_message e req w)) \<and>
      snd (snd (send_message e req w)) = [WhatsAppSend (cleanPhone p) msg]) \<and>
   (fst (snd (send_message e req w)) \<noteq> w \<longrightarrow>
      send_ok e 0 \<and> success (fst (send_message e req w))) \<and>
   (handoffMode (fst (snd (send_message e req w))) \<noteq> handoffMode w \<longrightarrow>
      send_ok e 0 \<and> success (fst (send_message e req w)))"
  by (auto simp: send_message_def Let_def split: option.splits if_splits)

theorem send_message_failure_witness:
  "fst (snd (send_message env_send_fails
      \<lparr>req_phoneNumber = Some ''+1 (555) 123-4567'', req_message = Some ''We will call you''\<rparr>
      (world_at ''15551234567'' \<lparr>stage = ASKED_EMAIL, data = empty_data\<rparr>))) =
     world_at ''15551234567'' \<lparr>stage = ASKED_EMAIL, data = empty_data\<rparr> \<and>
   status (fst (send_message env_send_fails
      \<lparr>req_phoneNumber = Some ''+1 (555) 123-4567'', req_message = Some ''We will call you''\<rparr>
      (world_at ''15551234567'' \<lparr>stage = ASKED_EMAIL, data = empty_data\<rparr>))) = 500 \<and>
   \<not> success (fst (send_message env_send_fails
      \<lparr>req_phoneNumber = Some ''+1 (555) 123-4567'', req_message = Some ''We will call you''\<rparr>
      (world_at ''15551234567'' \<lparr>stage = ASKED_EMAIL, data = empty_data\<rparr>)))"
  using send_message_failure [of
      "\<lparr>req_phoneNumber = Some ''+1 (555) 123-4567'', req_message = Some ''We will call you''\<rparr>"
      "''+1 (555) 123-4567''" "''We will call you''" env_send_fails
      "world_at ''15551234567'' \<lparr>stage = ASKED_EMAIL, data = empty_data\<rparr>"]
  by (simp add: env_send_fails_def env_ok_def)

lemma hc_handoffMode [simp]:
  "handoffMode (fst (handleConversation e u m w)) = handoffMode w"
proof (cases "conversations w u")
  case None
  then show ?thesis by (simp add: hc_INITIAL)
next
  case (Some c)
  then show ?thesis
    by (cases "stage c") (simp_all add: hc_stored Let_def split_beta)
qed

lemma hc_messageHistory_other:
  "cleanPhone u \<noteq> k \<Longrightarrow>
   messageHistory (fst (handleConversation e u m w)) k = messageHistory w k"
proof (cases "conversations w u")
  case None
  assume "cleanPhone u \<noteq> k"
  with None show ?thesis
    by (simp add: hc_INITIAL commit_and_reply_def storeMessage_def Let_def)
next
  case (Some c)
  assume "cleanPhone u \<noteq> k"
  with Some show ?thesis
    by (cases "stage c")
       (simp_all add: hc_stored commit_and_reply_def storeMessage_def Let_def split_beta)
qed

lemma webhook_handoffMode [simp]:
  "handoffMode (fst (webhook e body w)) = handoffMode w"
  by (simp add: webhook_def Let_def split: option.splits list.splits)

lemma serve_keeps_handoff:
  "handoffMode w k = Some True \<Longrightarrow> \<not> resumes k (snd r) \<Longrightarrow>
   handoffMode (serve r w) k = Some True"
proof (cases r)
  case (Pair e q)
  assume "handoffMode w k = Some True" and "\<not> resumes k (snd r)"
  with Pair show ?thesis
    by (cases q)
       (auto simp: send_message_def resume_bot_def setHandoffMode_def storeMessage_def Let_def
          split: option.splits if_splits)
qed

lemma run_keeps_handoff:
  "handoffMode w k = Some True \<Longrightarrow> \<forall>r \<in> set rs. \<not> resumes k (snd r) \<Longrightarrow>
   handoffMode (run rs w) k = Some True"
proof (induction rs arbitrary: w)
  case Nil
  then show ?case by simp
next
  case (Cons r rs)
  then show ?case by (simp add: serve_keeps_handoff)
qed

text \<open>
  C3: once the handoff flag of a sender is set, it stays set through every list of requests
  that holds no resume for that sender, and a webhook delivery from that sender in the
  state reached then sends nothing, leaves every conversation and the flag as they are,
  and appends the customer message to the history of the sender.
\<close>

theorem handoff_exclusive:
  assumes "handoffMode w k = Some True"
    and "\<forall>r \<in> set rs. \<not> resumes k (snd r)"
    and "cleanPhone sender_id = k"
    and "body_object body = Some ''whatsapp_business_account''"
    and "messages body = Some (m # ms)"
    and "msg_from m = Some sender_id"
  shows "snd (webhook e body (run rs w)) = [] \<and>
         conversations (fst (webhook e body (run rs w))) = conversations (run rs w) \<and>
         handoffMode (fst (webhook e body (run rs w))) k = Some True \<and>
         messageHistory (fst (webhook e body (run rs w))) k =
           Some ((case messageHistory (run rs w) k of None \<Rightarrow> [] | Some h \<Rightarrow> h) @
                 [\<lparr>sender = Customer, message = messageText m, timestamp = now e 0\<rparr>])"
proof -
  have flag: "handoffMode (run rs w) k = Some True"
    using assms(1,2) by (rule run_keeps_handoff)
  then have "isHandoffMode sender_id (run rs w)"
    using assms(3) by (simp add: isHandoffMode_def)
  then have "webhook e body (run rs w) =
      (storeMessage sender_id Customer (messageText m) (now e 0) (run rs w), [])"
    using assms(4-6) by (simp add: webhook_def Let_def)
  then show ?thesis
    using flag assms(3) by (simp add: storeMessage_def Let_def)
qed


theorem handoff_exclusive_witness:
  "handoffMode (serve (env_ok, SendMessage
       \<lparr>req_phoneNumber = Some ''+1 (555) 123-4567'', req_message = Some ''We will call you''\<rparr>)
       initial_world) ''15551234567'' = Some True \<and>
   snd (webhook env_ok (inbound ''+15551234567'' ''hello'')
     (run [(env_ok, Webhook (inbound ''15551234567'' ''hi'')),
           (env_ok, ResumeBot (Some ''4915112345678''))]
        (serve (env_ok, SendMessage
           \<lparr>req_phoneNumber = Some ''+1 (555) 123-4567'',
             req_message = Some ''We will call you''\<rparr>) initial_world))) = []"
proof -
  let ?w = "serve (env_ok, SendMessage
       \<lparr>req_phoneNumber = Some ''+1 (555) 123-4567'', req_message = Some ''We will call you''\<rparr>)
       initial_world"
  let ?rs = "[(env_ok, Webhook (inbound ''15551234567'' ''hi'')),
              (env_ok, ResumeBot (Some ''4915112345678''))]"
  have flag: "handoffMode ?w ''15551234567'' = Some True"
    by (simp add: send_message_def setHandoffMode_def storeMessage_def cleanPhone_def
        is_digit_def env_ok_def Let_def)
  have others: "\<forall>r \<in> set ?rs. \<not> resumes ''15551234567'' (snd r)"
    by (simp add: cleanPhone_def is_digit_def)
  have key: "cleanPhone ''+15551234567'' = ''15551234567''"
    by (simp add: cleanPhone_def is_digit_def)
  from handoff_exclusive [OF flag others key, of "inbound ''+15551234567'' ''hello''"
      "\<lparr>msg_from = Some ''+15551234567'', text_body = Some ''hello''\<rparr>" "[]" env_ok] flag
  show ?thesis
    by (simp add: inbound_def)
qed

lemma hc_decompose:
  assumes "stage (get_conversation INITIAL u w) \<noteq> HANDOFF"
  shows "\<exists>c r w0 es. sent es = [] \<and> messageHistory w0 = messageHistory w \<and>
           (\<forall>f. handleConversation (e\<lparr>send_ok := f\<rparr>) u m w =
                  commit_and_reply (e\<lparr>send_ok := f\<rparr>) u c r w0 es)"
proof (cases "conversations w u")
  case None
  then have "\<forall>f. handleConversation (e\<lparr>send_ok := f\<rparr>) u m w =
      commit_and_reply (e\<lparr>send_ok := f\<rparr>) u \<lparr>stage = ASKED_FIRST_NAME, data = empty_data\<rparr>
        reply_greeting w []"
    by (simp add: hc_INITIAL)
  then show ?thesis
    by (intro exI [of _ "\<lparr>stage = ASKED_FIRST_NAME, data = empty_data\<rparr>"] exI [of _ reply_greeting]
        exI [of _ w] exI [of _ "[]"]) simp
next
  case (Some c)
  let ?d = "(data c)\<lparr>requirement := Some m, whatsappNumber := Some u\<rparr>"
  let ?w1 = "fst (snd (createLeadInSalesforce e ?d w))"
  let ?es = "snd (snd (createLeadInSalesforce e ?d w))"
  let ?deleted = "w\<lparr>conversations := (conversations w)(u := None)\<rparr>"
  have not_handoff: "stage c \<noteq> HANDOFF"
    using assms Some by (simp add: get_conversation_def)
  obtain c' r w0 es where pick: "(c', r, w0, es) =
     (case stage c of
        INITIAL \<Rightarrow> (c\<lparr>stage := ASKED_FIRST_NAME\<rparr>, reply_greeting, w, [])
      | ASKED_FIRST_NAME \<Rightarrow>
          (c\<lparr>data := (data c)\<lparr>firstName := Some m\<rparr>, stage := ASKED_LAST_NAME\<rparr>,
           reply_last_name m, w, [])
      | ASKED_LAST_NAME \<Rightarrow>
          (c\<lparr>data := (data c)\<lparr>lastName := Some m\<rparr>, stage := ASKED_EMAIL\<rparr>, reply_email, w, [])
      | ASKED_EMAIL \<Rightarrow>
          (if \<not> str_includes m CHR ''@'' \<or> \<not> str_includes m CHR ''.''
           then (c, reply_invalid_email, w, [])
           else (c\<lparr>data := (data c)\<lparr>email := Some m\<rparr>, stage := ASKED_PHONE\<rparr>,
                 reply_phone, w, []))
      | ASKED_PHONE \<Rightarrow>
          (c\<lparr>data := (data c)\<lparr>phone := Some m\<rparr>, stage := ASKED_REQUIREMENT\<rparr>,
           reply_requirement, w, [])
      | ASKED_REQUIREMENT \<Rightarrow>
          (if truthy (fst (createLeadInSalesforce e ?d w))
           then (c\<lparr>data := ?d, stage := COMPLETED\<rparr>,
                 reply_thanks (firstName ?d) (fst (createLeadInSalesforce e ?d w)), ?w1, ?es)
           else (c\<lparr>data := ?d\<rparr>, reply_crm_error, ?w1, ?es))
      | COMPLETED \<Rightarrow>
          (if toLowerCase m = ''restart'' \<or> toLowerCase m = ''start''
           then (\<lparr>stage = ASKED_FIRST_NAME, data = empty_data\<rparr>, reply_greeting, ?deleted, [])
           else (c, reply_already_submitted, w, []))
      | HANDOFF \<Rightarrow> (c, [], w, []))"
    by (metis prod_cases4)
  have "sent es = []"
    using pick by (cases "stage c") (simp_all add: prod_eq_iff split: if_splits)
  moreover have "messageHistory w0 = messageHistory w"
    using pick by (cases "stage c") (simp_all add: prod_eq_iff split: if_splits)
  moreover have "\<forall>f. handleConversation (e\<lparr>send_ok := f\<rparr>) u m w =
      commit_and_reply (e\<lparr>send_ok := f\<rparr>) u c' r w0 es"
    using pick not_handoff Some
    by (cases "stage c")
       (simp_all add: hc_stored Let_def split_beta prod_eq_iff split: if_splits)
  ultimately show ?thesis by blast
qed

text \<open>
  C2, as the code has it: for a delivery that is answered, the conversation is stored
  before the send, and the reply is recorded in the history after the send has returned.
  When the send fails, two sends were attempted (the reply, then the apology), the stored
  conversation stays, and the history holds the customer message and no bot record: the
  state after a successful send is the state after the failed one plus the bot record.
\<close>

theorem webhook_send_failure:
  assumes "body_object body = Some ''whatsapp_business_account''"
    and "messages body = Some (m # ms)"
    and "msg_from m = Some sender_id"
    and "\<not> isHandoffMode sender_id w"
    and "stage (get_conversation INITIAL sender_id w) \<noteq> HANDOFF"
    and "\<not> send_ok e 0"
  shows "\<exists>reply es0. sent es0 = [] \<and>
     snd (webhook e body w) =
       es0 @ [WhatsAppSend sender_id reply, WhatsAppSend sender_id reply_went_wrong] \<and>
     snd (webhook (e\<lparr>send_ok := \<lambda>n. True\<rparr>) body w) = es0 @ [WhatsAppSend sender_id reply] \<and>
     fst (webhook (e\<lparr>send_ok := \<lambda>n. True\<rparr>) body w) =
       storeMessage sender_id Bot reply (now e 1) (fst (webhook e body w)) \<and>
     messageHistory (fst (webhook e body w)) =
       messageHistory (storeMessage sender_id Customer (messageText m) (now e 0) w) \<and>
     conversations (fst (webhook e body w)) =
       conversations (fst (webhook (e\<lparr>send_ok := \<lambda>n. True\<rparr>) body w)) \<and>
     conversations (fst (webhook e body w)) sender_id \<noteq> None"
proof -
  let ?w1 = "storeMessage sender_id Customer (messageText m) (now e 0) w"
  have hook: "webhook (e\<lparr>send_ok := f\<rparr>) body w =
      handleConversation (e\<lparr>send_ok := f\<rparr>) sender_id (messageText m) ?w1" for f
    using assms(1-4) by (simp add: webhook_def Let_def)
  have "stage (get_conversation INITIAL sender_id ?w1) \<noteq> HANDOFF"
    using assms(5) by (simp add: get_conversation_def)
  from hc_decompose [OF this, of e "messageText m"]
  obtain c r w0 es where es: "sent es = []"
    and hist: "messageHistory w0 = messageHistory ?w1"
    and run: "\<And>f. handleConversation (e\<lparr>send_ok := f\<rparr>) sender_id (messageText m) ?w1 =
                commit_and_reply (e\<lparr>send_ok := f\<rparr>) sender_id c r w0 es"
    by blast
  have failed: "webhook e body w = commit_and_reply e sender_id c r w0 es"
    using hook [of "send_ok e"] run [of "send_ok e"] by simp
  have sent_ok: "webhook (e\<lparr>send_ok := \<lambda>n. True\<rparr>) body w =
      commit_and_reply (e\<lparr>send_ok := \<lambda>n. True\<rparr>) sender_id c r w0 es"
    using hook run by simp
  show ?thesis
    using es hist assms(6)
    by (intro exI [of _ r] exI [of _ es])
       (simp add: failed sent_ok commit_and_reply_def Let_def)
qed

theorem webhook_send_failure_witness:
  "\<exists>reply es0. sent es0 = [] \<and>
     snd (webhook env_send_fails (inbound ''15551234567'' ''john@x.com'')
        (world_at ''15551234567'' \<lparr>stage = ASKED_EMAIL, data = empty_data\<rparr>)) =
       es0 @ [WhatsAppSend ''15551234567'' reply,
              WhatsAppSend ''15551234567'' reply_went_wrong] \<and>
     fst (webhook (env_send_fails\<lparr>send_ok := \<lambda>n. True\<rparr>) (inbound ''15551234567'' ''john@x.com'')
        (world_at ''15551234567'' \<lparr>stage = ASKED_EMAIL, data = empty_data\<rparr>)) =
       storeMessage ''15551234567'' Bot reply (now env_send_fails 1)
         (fst (webhook env_send_fails (inbound ''15551234567'' ''john@x.com'')
            (world_at ''15551234567'' \<lparr>stage = ASKED_EMAIL, data = empty_data\<rparr>)))"
proof -
  let ?w = "world_at ''15551234567'' \<lparr>stage = ASKED_EMAIL, data = empty_data\<rparr>"
  have a: "\<not> isHandoffMode ''15551234567'' ?w"
    by (simp add: isHandoffMode_def world_at_def initial_world_def)
  have b: "stage (get_conversation INITIAL ''15551234567'' ?w) \<noteq> HANDOFF"
    by (simp add: get_conversation_def world_at_def)
  have c: "\<not> send_ok env_send_fails 0"
    by (simp add: env_send_fails_def)
  from webhook_send_failure [of "inbound ''15551234567'' ''john@x.com''"
      "\<lparr>msg_from = Some ''15551234567'', text_body = Some ''john@x.com''\<rparr>" "[]"
      "''15551234567''" ?w env_send_fails, OF _ _ _ a b c]
  show ?thesis
    by (simp add: inbound_def) blast
qed

text \<open>
  C2 as stated fails: when the send of the greeting fails, the conversation is stored and
  both sends were attempted, and the history holds the customer message only.
\<close>

theorem failed_send_leaves_no_bot_record:
  "messageHistory (fst (webhook env_send_fails (inbound ''15551234567'' ''hello'') initial_world))
     ''15551234567'' =
     Some [\<lparr>sender = Customer, message = ''hello'', timestamp = ''2024-01-01T00:00:00.000Z''\<rparr>] \<and>
   conversations (fst (webhook env_send_fails (inbound ''15551234567'' ''hello'') initial_world))
     ''15551234567'' = Some \<lparr>stage = ASKED_FIRST_NAME, data = empty_data\<rparr> \<and>
   snd (webhook env_send_fails (inbound ''15551234567'' ''hello'') initial_world) =
     [WhatsAppSend ''15551234567'' reply_greeting, WhatsAppSend ''15551234567'' reply_went_wrong]"
proof -
  let ?w1 = "storeMessage ''15551234567'' Customer ''hello'' ''2024-01-01T00:00:00.000Z''
      initial_world"
  have body_text: "messageText \<lparr>msg_from = Some ''15551234567'', text_body = Some ''hello''\<rparr> = ''hello''"
    by (simp add: messageText_def trim_def strip.simps leading_def white_space_def)
  have key: "cleanPhone ''15551234567'' = ''15551234567''"
    by (simp add: cleanPhone_def is_digit_def)
  have free: "\<not> isHandoffMode ''15551234567'' initial_world"
    by (simp add: isHandoffMode_def initial_world_def)
  have hook: "webhook env_send_fails (inbound ''15551234567'' ''hello'') initial_world =
      handleConversation env_send_fails ''15551234567'' ''hello'' ?w1"
    using free by (simp add: webhook_def inbound_def body_text env_send_fails_def env_ok_def Let_def)
  have new: "conversations ?w1 ''15551234567'' = None"
    by (simp add: initial_world_def)
  have hist: "messageHistory ?w1 ''15551234567'' =
      Some [\<lparr>sender = Customer, message = ''hello'', timestamp = ''2024-01-01T00:00:00.000Z''\<rparr>]"
    by (simp add: storeMessage_def key initial_world_def)
  have nosend: "\<not> send_ok env_send_fails 0"
    by (simp add: env_send_fails_def)
  have result: "webhook env_send_fails (inbound ''15551234567'' ''hello'') initial_world =
      (?w1\<lparr>conversations := (conversations ?w1)(''15551234567'' \<mapsto>
             \<lparr>stage = ASKED_FIRST_NAME, data = empty_data\<rparr>)\<rparr>,
       [WhatsAppSend ''15551234567'' reply_greeting,
        WhatsAppSend ''15551234567'' reply_went_wrong])"
    using nosend by (simp add: hook hc_INITIAL [OF new] commit_and_reply_def Let_def)
  show ?thesis
    using hist by (simp add: result)
qed


lemma webhook_inbound:
  "\<not> isHandoffMode u w \<Longrightarrow>
   webhook e \<lparr>body_object = Some ''whatsapp_business_account'',
              messages = Some (\<lparr>msg_from = Some u, text_body = t\<rparr> # ms)\<rparr> w =
     handleConversation e u (messageText \<lparr>msg_from = Some u, text_body = t\<rparr>)
       (storeMessage u Customer (messageText \<lparr>msg_from = Some u, text_body = t\<rparr>) (now e 0) w)"
  by (simp add: webhook_def Let_def)

text \<open>
  C9, as the code has it: a delivery that is not a WhatsApp event, carries no message, or
  whose first message has no sender is dropped, with the state unchanged and nothing sent.
  A message without text is not dropped: it is handled as the same message with the empty
  text.
\<close>

theorem webhook_malformed:
  "(body_object body \<noteq> Some ''whatsapp_business_account'' \<or> messages body = None \<or>
    messages body = Some [] \<or>
    (\<exists>m ms. messages body = Some (m # ms) \<and> msg_from m = None) \<longrightarrow>
      webhook e body w = (w, [])) \<and>
   (messages body = Some (m # ms) \<and> text_body m = None \<longrightarrow>
      webhook e body w =
        webhook e (body\<lparr>messages := Some (m\<lparr>text_body := Some []\<rparr> # ms)\<rparr>) w)"
  by (auto simp: webhook_def messageText_def trim_Nil Let_def split: option.splits)

theorem webhook_malformed_witness:
  "webhook env_ok \<lparr>body_object = Some ''whatsapp_business_account'',
       messages = Some [\<lparr>msg_from = None, text_body = Some ''hello''\<rparr>]\<rparr>
     (world_at ''15551234567'' \<lparr>stage = ASKED_EMAIL, data = empty_data\<rparr>) =
     (world_at ''15551234567'' \<lparr>stage = ASKED_EMAIL, data = empty_data\<rparr>, []) \<and>
   webhook env_ok (inbound_without_text ''15551234567'') initial_world =
     webhook env_ok (inbound ''15551234567'' []) initial_world"
  using webhook_malformed [where body = "\<lparr>body_object = Some ''whatsapp_business_account'',
          messages = Some [\<lparr>msg_from = None, text_body = Some ''hello''\<rparr>]\<rparr>" and e = env_ok
        and w = "world_at ''15551234567'' \<lparr>stage = ASKED_EMAIL, data = empty_data\<rparr>"]
    webhook_malformed [where body = "inbound_without_text ''15551234567''"
        and m = "\<lparr>msg_from = Some ''15551234567'', text_body = None\<rparr>" and ms = "[]"
        and e = env_ok and w = initial_world]
  by (simp add: inbound_without_text_def inbound_def)

text \<open>
  C9 as stated fails for a missing text: the message without text of a new sender is
  recorded in the history with the empty text, a conversation is created, and the greeting
  is sent and recorded.
\<close>

theorem webhook_without_text_is_answered:
  "messageHistory (fst (webhook env_ok (inbound_without_text ''15551234567'') initial_world))
     ''15551234567'' =
     Some [\<lparr>sender = Customer, message = [], timestamp = ''2024-01-01T00:00:00.000Z''\<rparr>,
           \<lparr>sender = Bot, message = reply_greeting, timestamp = ''2024-01-01T00:00:00.000Z''\<rparr>] \<and>
   conversations (fst (webhook env_ok (inbound_without_text ''15551234567'') initial_world))
     ''15551234567'' = Some \<lparr>stage = ASKED_FIRST_NAME, data = empty_data\<rparr> \<and>
   snd (webhook env_ok (inbound_without_text ''15551234567'') initial_world) =
     [WhatsAppSend ''15551234567'' reply_greeting]"
proof -
  let ?w1 = "storeMessage ''15551234567'' Customer [] (now env_ok 0) initial_world"
  have key: "cleanPhone ''15551234567'' = ''15551234567''"
    by (simp add: cleanPhone_def is_digit_def)
  have free: "\<not> isHandoffMode ''15551234567'' initial_world"
    by (simp add: isHandoffMode_def initial_world_def)
  have hook: "webhook env_ok (inbound_without_text ''15551234567'') initial_world =
      handleConversation env_ok ''15551234567'' [] ?w1"
    unfolding inbound_without_text_def
    by (simp add: webhook_inbound [OF free] messageText_def)
  have new: "conversations ?w1 ''15551234567'' = None"
    by (simp add: initial_world_def)
  have times: "now env_ok 0 = ''2024-01-01T00:00:00.000Z''"
      "now env_ok 1 = ''2024-01-01T00:00:00.000Z''" "send_ok env_ok 0"
    by (simp_all add: env_ok_def)
  have result: "webhook env_ok (inbound_without_text ''15551234567'') initial_world =
      (storeMessage ''15551234567'' Bot reply_greeting ''2024-01-01T00:00:00.000Z''
         (?w1\<lparr>conversations := (conversations ?w1)(''15551234567'' \<mapsto>
             \<lparr>stage = ASKED_FIRST_NAME, data = empty_data\<rparr>)\<rparr>),
       [WhatsAppSend ''15551234567'' reply_greeting])"
    using times(2,3) by (simp add: hook hc_INITIAL [OF new] commit_and_reply_def Let_def)
  show ?thesis
    unfolding result
    by (simp add: times(1) storeMessage_def key initial_world_def Let_def)
qed

text \<open>
  C4 fails on the code: the webhook looks the conversation up under the sender as it was
  delivered, while the history, the handoff flag and the other endpoints use the digits.
  After a resume for \<open>15551234567\<close> a message from \<open>15551234567\<close> meets the completed
  conversation, and the same message from \<open>+15551234567\<close> (the same digits) is greeted
  as a new sender and gets a second conversation under the key with the plus sign.
\<close>

theorem webhook_conversation_key_not_normalized:
  "cleanPhone ''+15551234567'' = cleanPhone ''15551234567'' \<and>
   first_reply (snd (webhook env_ok (inbound ''15551234567'' ''hello'') world_resumed)) =
     Some (''15551234567'', reply_already_submitted) \<and>
   first_reply (snd (webhook env_ok (inbound ''+15551234567'' ''hello'') world_resumed)) =
     Some (''+15551234567'', reply_greeting) \<and>
   conversations (fst (webhook env_ok (inbound ''+15551234567'' ''hello'') world_resumed))
     ''+15551234567'' = Some \<lparr>stage = ASKED_FIRST_NAME, data = empty_data\<rparr> \<and>
   conversations (fst (webhook env_ok (inbound ''+15551234567'' ''hello'') world_resumed))
     ''15551234567'' = Some \<lparr>stage = COMPLETED, data = empty_data\<rparr> \<and>
   map_option length
     (messageHistory (fst (webhook env_ok (inbound ''+15551234567'' ''hello'') world_resumed))
        ''15551234567'') = Some 2"
proof -
  have key: "cleanPhone ''15551234567'' = ''15551234567''"
      "cleanPhone ''+15551234567'' = ''15551234567''"
    by (simp_all add: cleanPhone_def is_digit_def)
  have body_text: "messageText \<lparr>msg_from = Some u, text_body = Some ''hello''\<rparr> = ''hello''" for u
    by (simp add: messageText_def trim_def strip.simps leading_def white_space_def)
  have stored: "conversations world_resumed ''15551234567'' =
        Some \<lparr>stage = COMPLETED, data = empty_data\<rparr>"
      "conversations world_resumed ''+15551234567'' = None"
      "messageHistory world_resumed ''15551234567'' = None"
    by (simp_all add: world_resumed_def resume_bot_def setHandoffMode_def get_conversation_def
        key initial_world_def Let_def)
  have free: "\<not> isHandoffMode ''15551234567'' world_resumed"
      "\<not> isHandoffMode ''+15551234567'' world_resumed"
    by (simp_all add: isHandoffMode_def key world_resumed_def resume_bot_def setHandoffMode_def
        initial_world_def Let_def)
  let ?plain = "storeMessage ''15551234567'' Customer ''hello'' (now env_ok 0) world_resumed"
  let ?plus = "storeMessage ''+15551234567'' Customer ''hello'' (now env_ok 0) world_resumed"
  have plain: "webhook env_ok (inbound ''15551234567'' ''hello'') world_resumed =
      handleConversation env_ok ''15551234567'' ''hello'' ?plain"
    unfolding inbound_def by (simp add: webhook_inbound [OF free(1)] body_text)
  have plus: "webhook env_ok (inbound ''+15551234567'' ''hello'') world_resumed =
      handleConversation env_ok ''+15551234567'' ''hello'' ?plus"
    unfolding inbound_def by (simp add: webhook_inbound [OF free(2)] body_text)
  have c_plain: "conversations ?plain ''15551234567'' = Some \<lparr>stage = COMPLETED, data = empty_data\<rparr>"
    by (simp add: stored)
  have c_plus: "conversations ?plus ''+15551234567'' = None"
    by (simp add: stored)
  have lower: "toLowerCase ''hello'' \<noteq> ''restart''" "toLowerCase ''hello'' \<noteq> ''start''"
    by (simp_all add: toLowerCase_def)
  have ok: "send_ok env_ok 0"
    by (simp add: env_ok_def)
  have "first_reply (snd (webhook env_ok (inbound ''15551234567'' ''hello'') world_resumed)) =
      Some (''15551234567'', reply_already_submitted)"
    using lower by (simp add: plain hc_stored [OF c_plain])
  moreover have "first_reply (snd (webhook env_ok (inbound ''+15551234567'' ''hello'') world_resumed)) =
      Some (''+15551234567'', reply_greeting)"
    by (simp add: plus hc_INITIAL [OF c_plus])
  moreover have "conversations (fst (webhook env_ok (inbound ''+15551234567'' ''hello'') world_resumed))
      ''+15551234567'' = Some \<lparr>stage = ASKED_FIRST_NAME, data = empty_data\<rparr>"
    by (simp add: plus hc_INITIAL [OF c_plus])
  moreover have "conversations (fst (webhook env_ok (inbound ''+15551234567'' ''hello'') world_resumed))
      ''15551234567'' = Some \<lparr>stage = COMPLETED, data = empty_data\<rparr>"
    by (simp add: plus hc_INITIAL [OF c_plus] stored)
  moreover have "map_option length
     (messageHistory (fst (webhook env_ok (inbound ''+15551234567'' ''hello'') world_resumed))
        ''15551234567'') = Some 2"
    using ok unfolding plus hc_INITIAL [OF c_plus]
    by (simp add: commit_and_reply_def storeMessage_def key stored Let_def)
  ultimately show ?thesis
    by (simp add: key)
qed

end
